theory Spec2Isabelle
  imports Main "HOL-Library.Word"
begin

section \<open>JavaScript strings\<close>

text \<open>
  A JavaScript string is a sequence of UTF-16 code units: \<open>s.length\<close> counts code units
  and a regular expression without the \<open>u\<close> flag matches code unit by code unit.
\<close>

type_synonym jschar = "16 word"
type_synonym jsstring = "jschar list"

definition js :: "string \<Rightarrow> jsstring" where
  "js s = map of_char s"

definition is_lower :: "jschar \<Rightarrow> bool" where
  "is_lower c = (0x61 \<le> c \<and> c \<le> 0x7A)"

definition is_upper :: "jschar \<Rightarrow> bool" where
  "is_upper c = (0x41 \<le> c \<and> c \<le> 0x5A)"

definition is_digit :: "jschar \<Rightarrow> bool" where
  "is_digit c = (0x30 \<le> c \<and> c \<le> 0x39)"

definition is_alpha :: "jschar \<Rightarrow> bool" where
  "is_alpha c = (is_lower c \<or> is_upper c)"

definition is_alnum :: "jschar \<Rightarrow> bool" where
  "is_alnum c = (is_lower c \<or> is_upper c \<or> is_digit c)"

definition not_alnum :: "jschar \<Rightarrow> bool" where
  "not_alnum c = (\<not> is_alnum c)"

text \<open>The line terminators of ECMAScript: the characters that \<open>.\<close> does not match.\<close>

definition is_line_terminator :: "jschar \<Rightarrow> bool" where
  "is_line_terminator c = (c = 0x0A \<or> c = 0x0D \<or> c = 0x2028 \<or> c = 0x2029)"

definition not_line_terminator :: "jschar \<Rightarrow> bool" where
  "not_line_terminator c = (\<not> is_line_terminator c)"

text \<open>
  White space and line terminators: what \<open>\s\<close> matches and what
  \<open>String.prototype.trim\<close> strips.
\<close>

definition is_space :: "jschar \<Rightarrow> bool" where
  "is_space c =
     ((0x09 \<le> c \<and> c \<le> 0x0D) \<or> c = 0x20 \<or> c = 0xA0 \<or> c = 0x1680 \<or>
      (0x2000 \<le> c \<and> c \<le> 0x200A) \<or> c = 0x2028 \<or> c = 0x2029 \<or> c = 0x202F \<or>
      c = 0x205F \<or> c = 0x3000 \<or> c = 0xFEFF)"

definition js_trim :: "jsstring \<Rightarrow> jsstring" where
  "js_trim s = rev (dropWhile is_space (rev (dropWhile is_space s)))"

section \<open>Regular expressions\<close>

text \<open>
  The patterns of the two pages are sequences of character classes, repeated character
  classes (\<open>[..]+\<close> is \<open>ClassRep 1\<close>, \<open>.*\<close> is \<open>ClassRep 0\<close>, \<open>[..]{2,}\<close> is
  \<open>ClassRep 2\<close>), negative lookaheads and the end anchor \<open>$\<close>.
\<close>

datatype atom =
    Class "jschar \<Rightarrow> bool"
  | ClassRep nat "jschar \<Rightarrow> bool"
  | NotAhead "atom list"
  | EndOfInput

text \<open>
  The rests of the input after a repetition of at least \<open>n\<close> characters of a class,
  longest repetition first: the order in which a backtracking matcher tries them.
\<close>

fun rep_rests :: "nat \<Rightarrow> (jschar \<Rightarrow> bool) \<Rightarrow> jsstring \<Rightarrow> jsstring list" where
  "rep_rests n P [] = (if n = 0 then [[]] else [])"
| "rep_rests n P (c # cs) =
     (if P c then rep_rests (n - 1) P cs else []) @ (if n = 0 then [c # cs] else [])"

text \<open>Does the pattern match a prefix of the input?\<close>

fun match_here :: "atom list \<Rightarrow> jsstring \<Rightarrow> bool" where
  "match_here [] s = True"
| "match_here (Class P # as) s =
     (case s of [] \<Rightarrow> False | c # cs \<Rightarrow> P c \<and> match_here as cs)"
| "match_here (ClassRep n P # as) s = list_ex (match_here as) (rep_rests n P s)"
| "match_here (NotAhead xs # as) s = (\<not> match_here xs s \<and> match_here as s)"
| "match_here (EndOfInput # as) s = (s = [] \<and> match_here as s)"

text \<open>
  \<open>RegExp.prototype.test\<close> of a pattern without flags: the pattern is tried at every
  start index, from 0 to the length of the input. A pattern that begins with \<open>^\<close> can
  only match at index 0.
\<close>

fun regex_test :: "atom list \<Rightarrow> jsstring \<Rightarrow> bool" where
  "regex_test as [] = match_here as []"
| "regex_test as (c # cs) = (match_here as (c # cs) \<or> regex_test as cs)"

definition regex_test_anchored :: "atom list \<Rightarrow> jsstring \<Rightarrow> bool" where
  "regex_test_anchored as s = match_here as s"

section \<open>The password strength estimator (Signup.tsx)\<close>

datatype strength = Weak | Medium | Strong

text \<open>The value of the local variable \<open>strength\<close> after the six checks.\<close>

definition strength_points :: "jsstring \<Rightarrow> nat" where
  "strength_points password =
     (let strength = 0;
          strength = (if 8 \<le> length password then strength + 1 else strength);
          strength = (if 12 \<le> length password then strength + 1 else strength);
          strength = (if regex_test [Class is_lower] password then strength + 1 else strength);
          strength = (if regex_test [Class is_upper] password then strength + 1 else strength);
          strength = (if regex_test [Class is_digit] password then strength + 1 else strength);
          strength = (if regex_test [Class not_alnum] password then strength + 1 else strength)
      in strength)"

definition getPasswordStrength :: "jsstring \<Rightarrow> strength" where
  "getPasswordStrength password =
     (if password = [] then Weak
      else let strength = strength_points password
           in if strength \<le> 2 then Weak
              else if strength \<le> 4 then Medium
              else Strong)"

text \<open>
  The point-scoring reference as the specification words it: one point for each of six
  conditions, and the rating read off the total.
\<close>

definition spec_score :: "jsstring \<Rightarrow> nat" where
  "spec_score p =
     of_bool (length p \<ge> 8) + of_bool (length p \<ge> 12) +
     of_bool (\<exists>c \<in> set p. is_lower c) + of_bool (\<exists>c \<in> set p. is_upper c) +
     of_bool (\<exists>c \<in> set p. is_digit c) + of_bool (\<exists>c \<in> set p. \<not> is_alnum c)"

definition spec_rating :: "nat \<Rightarrow> strength" where
  "spec_rating n = (if n \<ge> 5 then Strong else if n \<ge> 3 then Medium else Weak)"

definition spec_strength :: "jsstring \<Rightarrow> strength" where
  "spec_strength p = spec_rating (spec_score p)"

text \<open>The four character classes the estimator looks for.\<close>

datatype char_class = Lowercase | Uppercase | Digit | NonAlphanumeric

definition class_of :: "jschar \<Rightarrow> char_class" where
  "class_of c =
     (if is_lower c then Lowercase
      else if is_upper c then Uppercase
      else if is_digit c then Digit
      else NonAlphanumeric)"

definition has_class :: "char_class \<Rightarrow> jsstring \<Rightarrow> bool" where
  "has_class k p = list_ex (\<lambda>c. class_of c = k) p"

section \<open>Validation schemas\<close>

text \<open>
  Modelled from the spec: the schema library (zod) and the form controller
  (react-hook-form with its zod resolver) are dependencies of the pages, not code of the
  repository. A string schema is an ordered list of constraints, each with its message;
  validation runs in full and the error mapping keeps, for each field, the message of the
  first failed constraint; the submit entry point proceeds only when the error set is
  empty. The definitions \<open>run_checks\<close>, \<open>field_issues\<close>, \<open>parseErrorSchema\<close>,
  \<open>zodResolver\<close> and \<open>handleSubmit\<close> model that behaviour; the schemas themselves are
  transcribed from the pages.
\<close>

datatype check =
    Trim
  | Min nat string
  | Max nat string
  | Regex "jsstring \<Rightarrow> bool" string

text \<open>\<open>.nonempty(message)\<close> is \<open>.min(1, message)\<close>.\<close>

definition nonempty :: "string \<Rightarrow> check" where
  "nonempty message = Min 1 message"

text \<open>
  The checks of a string schema run in order on the current value, \<open>Trim\<close> replaces the
  value, and every failing check adds its message: the result is the final value and the
  messages in the order of the checks.
\<close>

fun run_checks :: "check list \<Rightarrow> jsstring \<Rightarrow> jsstring \<times> string list" where
  "run_checks [] v = (v, [])"
| "run_checks (Trim # cs) v = run_checks cs (js_trim v)"
| "run_checks (Min n message # cs) v =
     (let (v', ms) = run_checks cs v
      in (v', (if length v < n then [message] else []) @ ms))"
| "run_checks (Max n message # cs) v =
     (let (v', ms) = run_checks cs v
      in (v', (if length v > n then [message] else []) @ ms))"
| "run_checks (Regex test message # cs) v =
     (let (v', ms) = run_checks cs v
      in (v', (if \<not> test v then [message] else []) @ ms))"

text \<open>An issue is the path of a field and a message.\<close>

type_synonym issue = "string \<times> string"

definition field_value :: "check list \<Rightarrow> jsstring \<Rightarrow> jsstring" where
  "field_value cs v = fst (run_checks cs v)"

definition field_issues :: "string \<Rightarrow> check list \<Rightarrow> jsstring \<Rightarrow> issue list" where
  "field_issues path cs v = map (Pair path) (snd (run_checks cs v))"

text \<open>
  The resolver turns the issues into the error mapping of the form: an issue is recorded
  only when its path has no error yet.
\<close>

fun parseErrorSchema :: "issue list \<Rightarrow> issue list \<Rightarrow> issue list" where
  "parseErrorSchema [] errors = errors"
| "parseErrorSchema ((path, message) # zodErrors) errors =
     parseErrorSchema zodErrors
       (if map_of errors path = None then errors @ [(path, message)] else errors)"

definition zodResolver :: "('a \<Rightarrow> 'b \<times> issue list) \<Rightarrow> 'a \<Rightarrow> issue list + 'b" where
  "zodResolver schema values =
     (case schema values of
        (parsed, []) \<Rightarrow> Inr parsed
      | (parsed, i # is) \<Rightarrow> Inl (parseErrorSchema (i # is) []))"

subsection \<open>The form data\<close>

record credentials =
  email :: jsstring
  password :: jsstring

record LoginFormData = credentials +
  rememberMe :: "bool option"

record SignupFormData = credentials +
  fullName :: jsstring
  confirmPassword :: jsstring

subsection \<open>Login.tsx: the schema with \<open>EMAIL_REGEX\<close>\<close>

definition email_local :: "jschar \<Rightarrow> bool" where
  "email_local c = (is_alnum c \<or> c = 0x2E \<or> c = 0x5F \<or> c = 0x25 \<or> c = 0x2B \<or> c = 0x2D)"

definition email_domain :: "jschar \<Rightarrow> bool" where
  "email_domain c = (is_alnum c \<or> c = 0x2E \<or> c = 0x2D)"

definition is_dot :: "jschar \<Rightarrow> bool" where
  "is_dot c = (c = 0x2E)"

definition is_at :: "jschar \<Rightarrow> bool" where
  "is_at c = (c = 0x40)"

definition EMAIL_REGEX :: "atom list" where
  "EMAIL_REGEX =
     [NotAhead [Class is_dot],
      NotAhead [ClassRep 0 not_line_terminator, Class is_dot, Class is_at],
      ClassRep 1 email_local, Class is_at, ClassRep 1 email_domain, Class is_dot,
      ClassRep 2 is_alpha, EndOfInput]"

definition login_email_checks :: "check list" where
  "login_email_checks =
     [Trim,
      nonempty ''Email is required'',
      Regex (regex_test_anchored EMAIL_REGEX) ''Please enter a valid email address'']"

definition login_password_checks :: "check list" where
  "login_password_checks =
     [nonempty ''Password is required'',
      Min 8 ''Password must be at least 8 characters'',
      Max 15 ''Password must be at most 15 characters'']"

definition loginSchema :: "LoginFormData \<Rightarrow> LoginFormData \<times> issue list" where
  "loginSchema data =
     (data\<lparr>email := field_value login_email_checks (email data),
            password := field_value login_password_checks (password data)\<rparr>,
      field_issues ''email'' login_email_checks (email data) @
      field_issues ''password'' login_password_checks (password data))"

subsection \<open>Login.tsx, second variant: the schema with the library's email check\<close>

text \<open>
  \<open>.email(message)\<close> tests the value against the library's own email pattern, which is
  not part of the repository: it is the parameter \<open>zod_email\<close>.
\<close>

definition login2_email_checks :: "(jsstring \<Rightarrow> bool) \<Rightarrow> check list" where
  "login2_email_checks zod_email =
     [Trim,
      nonempty ''Email is required'',
      Regex zod_email ''Please enter a valid email address'',
      Max 255 ''Email must be less than 255 characters'']"

definition login2_password_checks :: "check list" where
  "login2_password_checks =
     [nonempty ''Password is required'',
      Min 6 ''Password must be at least 6 characters'',
      Max 100 ''Password must be less than 100 characters'']"

definition loginSchema2 ::
  "(jsstring \<Rightarrow> bool) \<Rightarrow> LoginFormData \<Rightarrow> LoginFormData \<times> issue list" where
  "loginSchema2 zod_email data =
     (data\<lparr>email := field_value (login2_email_checks zod_email) (email data),
            password := field_value login2_password_checks (password data)\<rparr>,
      field_issues ''email'' (login2_email_checks zod_email) (email data) @
      field_issues ''password'' login2_password_checks (password data))"

subsection \<open>Signup.tsx: the schema\<close>

definition name_char :: "jschar \<Rightarrow> bool" where
  "name_char c = (is_alpha c \<or> is_space c)"

definition fullName_checks :: "check list" where
  "fullName_checks =
     [Trim,
      nonempty ''Full name is required'',
      Min 2 ''Name must be at least 2 characters'',
      Max 100 ''Name must be less than 100 characters'',
      Regex (regex_test_anchored [ClassRep 1 name_char, EndOfInput])
        ''Name can only contain letters and spaces'']"

definition signup_email_checks :: "(jsstring \<Rightarrow> bool) \<Rightarrow> check list" where
  "signup_email_checks zod_email =
     [Trim,
      nonempty ''Email is required'',
      Regex zod_email ''Please enter a valid email address'',
      Max 255 ''Email must be less than 255 characters'']"

definition signup_password_checks :: "check list" where
  "signup_password_checks =
     [nonempty ''Password is required'',
      Min 8 ''Password must be at least 8 characters'',
      Max 100 ''Password must be less than 100 characters'',
      Regex (regex_test [Class is_upper]) ''Password must contain at least one uppercase letter'',
      Regex (regex_test [Class is_lower]) ''Password must contain at least one lowercase letter'',
      Regex (regex_test [Class is_digit]) ''Password must contain at least one number'']"

definition confirmPassword_checks :: "check list" where
  "confirmPassword_checks = [nonempty ''Please confirm your password'']"

text \<open>The object schema: the four fields in the order of the source.\<close>

definition signup_object ::
  "(jsstring \<Rightarrow> bool) \<Rightarrow> SignupFormData \<Rightarrow> SignupFormData \<times> issue list" where
  "signup_object zod_email data =
     (data\<lparr>fullName := field_value fullName_checks (fullName data),
            email := field_value (signup_email_checks zod_email) (email data),
            password := field_value signup_password_checks (password data),
            confirmPassword := field_value confirmPassword_checks (confirmPassword data)\<rparr>,
      field_issues ''fullName'' fullName_checks (fullName data) @
      field_issues ''email'' (signup_email_checks zod_email) (email data) @
      field_issues ''password'' signup_password_checks (password data) @
      field_issues ''confirmPassword'' confirmPassword_checks (confirmPassword data))"

text \<open>
  \<open>.refine\<close> runs its predicate on the parsed object, after the fields, and reports a
  failure on the path \<open>confirmPassword\<close>.
\<close>

definition signupSchema ::
  "(jsstring \<Rightarrow> bool) \<Rightarrow> SignupFormData \<Rightarrow> SignupFormData \<times> issue list" where
  "signupSchema zod_email data =
     (let (parsed, issues) = signup_object zod_email data
      in (parsed,
          issues @
          (if password parsed = confirmPassword parsed then []
           else [(''confirmPassword'', ''Passwords don't match'')])))"

text \<open>The constraints of the password field as the specification lists them.\<close>

definition spec_password_constraints :: "((jsstring \<Rightarrow> bool) \<times> string) list" where
  "spec_password_constraints =
     [(\<lambda>p. p \<noteq> [], ''Password is required''),
      (\<lambda>p. length p \<ge> 8, ''Password must be at least 8 characters''),
      (\<lambda>p. length p \<le> 100, ''Password must be less than 100 characters''),
      (\<lambda>p. \<exists>c \<in> set p. is_upper c, ''Password must contain at least one uppercase letter''),
      (\<lambda>p. \<exists>c \<in> set p. is_lower c, ''Password must contain at least one lowercase letter''),
      (\<lambda>p. \<exists>c \<in> set p. is_digit c, ''Password must contain at least one number'')]"

definition first_violated :: "(('a \<Rightarrow> bool) \<times> string) list \<Rightarrow> 'a \<Rightarrow> string option" where
  "first_violated cs v = map_option snd (find (\<lambda>(holds, message). \<not> holds v) cs)"

section \<open>The submission workflow\<close>

text \<open>
  What a page does to its surroundings is recorded as a trace of events: the state setters
  it calls, the wait for the simulated API call, the writes and reads of local storage,
  the notifications, the console and the navigation timers.
\<close>

datatype event =
    SetIsLoading bool
  | SetIsSuccess bool
  | Await nat
  | LocalStorageSetItem string string
  | LocalStorageGetItem string
  | ToastSuccess string string
  | ToastError string string
  | ToastInfo string string
  | ConsoleError string
  | SetTimeout nat string
  | Navigate string

text \<open>
  The state of a page: the loading flag, the error mapping of the form, the navigation
  timers that have not fired yet (delay and route) and the trace.
\<close>

record page =
  isLoading :: bool
  formErrors :: "issue list"
  pending :: "(nat \<times> string) list"
  trace :: "event list"

record signup_page = page +
  isSuccess :: bool

definition emit :: "event \<Rightarrow> 'a page_scheme \<Rightarrow> 'a page_scheme" where
  "emit e st = st\<lparr>trace := trace st @ [e]\<rparr>"

definition setIsLoading :: "bool \<Rightarrow> 'a page_scheme \<Rightarrow> 'a page_scheme" where
  "setIsLoading b st = emit (SetIsLoading b) (st\<lparr>isLoading := b\<rparr>)"

definition setIsSuccess :: "bool \<Rightarrow> signup_page \<Rightarrow> signup_page" where
  "setIsSuccess b st = emit (SetIsSuccess b) (st\<lparr>isSuccess := b\<rparr>)"

text \<open>
  The calls that a handler makes inside its \<open>try\<close> block, after the \<open>await\<close>, can throw:
  \<open>localStorage.setItem\<close> (storage full or blocked), \<open>toast.success\<close> and
  \<open>setTimeout\<close>. For each of them the record holds the error it throws, or \<open>None\<close>
  when it returns normally. A call that throws has no effect. The state setters of the
  component and the calls of the \<open>catch\<close> and \<open>finally\<close> blocks return normally.
\<close>

record browser =
  setItem_throws :: "string option"
  toast_success_throws :: "string option"
  setTimeout_throws :: "string option"

definition browser_ok :: browser where
  "browser_ok =
     \<lparr>setItem_throws = None, toast_success_throws = None, setTimeout_throws = None\<rparr>"

definition localStorage_setItem ::
  "browser \<Rightarrow> string \<Rightarrow> string \<Rightarrow> 'a page_scheme \<Rightarrow> 'a page_scheme \<times> string option" where
  "localStorage_setItem br key val st =
     (case setItem_throws br of
        Some error \<Rightarrow> (st, Some error)
      | None \<Rightarrow> (emit (LocalStorageSetItem key val) st, None))"

definition toast_success ::
  "browser \<Rightarrow> string \<Rightarrow> string \<Rightarrow> 'a page_scheme \<Rightarrow> 'a page_scheme \<times> string option" where
  "toast_success br title description st =
     (case toast_success_throws br of
        Some error \<Rightarrow> (st, Some error)
      | None \<Rightarrow> (emit (ToastSuccess title description) st, None))"

text \<open>\<open>setTimeout(() => navigate(route), ms)\<close> and the firing of the pending timers.\<close>

definition setTimeout_navigate ::
  "browser \<Rightarrow> nat \<Rightarrow> string \<Rightarrow> 'a page_scheme \<Rightarrow> 'a page_scheme \<times> string option" where
  "setTimeout_navigate br ms route st =
     (case setTimeout_throws br of
        Some error \<Rightarrow> (st, Some error)
      | None \<Rightarrow> (emit (SetTimeout ms route) (st\<lparr>pending := pending st @ [(ms, route)]\<rparr>), None))"

definition fire_timers :: "'a page_scheme \<Rightarrow> 'a page_scheme" where
  "fire_timers st =
     foldl (\<lambda>s (ms, route). emit (Navigate route) s) (st\<lparr>pending := []\<rparr>) (pending st)"

text \<open>
  How an awaited promise settles. The promise of the pages,
  \<open>new Promise((resolve) => setTimeout(resolve, ms))\<close>, has an executor that only
  schedules \<open>resolve\<close>: it is fulfilled after the delay.
\<close>

datatype settled = Resolves | Rejects string

definition simulated_api_call :: "nat \<Rightarrow> settled" where
  "simulated_api_call ms = Resolves"

text \<open>
  The submit entry point of the form controller: the resolver runs on the form values;
  with errors they are stored and the handler is not called, without errors the handler
  runs on the parsed values. The handler returns the new state and the error that
  escapes it, if any.
\<close>

definition handleSubmit ::
  "('v \<Rightarrow> issue list + 'w) \<Rightarrow> ('w \<Rightarrow> 'a page_scheme \<Rightarrow> 'a page_scheme \<times> string option) \<Rightarrow>
   'v \<Rightarrow> 'a page_scheme \<Rightarrow> 'a page_scheme \<times> string option" where
  "handleSubmit resolver onValid values st =
     (case resolver values of
        Inl errors \<Rightarrow> (st\<lparr>formErrors := errors\<rparr>, None)
      | Inr parsed \<Rightarrow> onValid parsed (st\<lparr>formErrors := []\<rparr>))"

subsection \<open>Login.tsx: \<open>onSubmit\<close> (the same text in both variants)\<close>

text \<open>
  The \<open>try\<close> block, with the browser and the way the awaited promise settles as
  parameters. A rejection leaves the block at the \<open>await\<close> with the error thrown; after
  the \<open>await\<close>, the first call that throws leaves the block with its error.
\<close>

definition login_try ::
  "browser \<Rightarrow> settled \<Rightarrow> LoginFormData \<Rightarrow> page \<Rightarrow> page \<times> string option" where
  "login_try br api data st =
     (let st = setIsLoading True st;
          st = emit (Await 1500) st
      in case api of
           Rejects error \<Rightarrow> (st, Some error)
         | Resolves \<Rightarrow>
             (case (if rememberMe data = Some True
                    then localStorage_setItem br ''rememberMe'' ''true'' st
                    else (st, None)) of
                (st, Some error) \<Rightarrow> (st, Some error)
              | (st, None) \<Rightarrow>
                  (case toast_success br ''Login successful! Welcome back.''
                          ''Redirecting to dashboard...'' st of
                     (st, Some error) \<Rightarrow> (st, Some error)
                   | (st, None) \<Rightarrow> setTimeout_navigate br 1000 ''/'' st)))"

definition login_catch :: "string \<Rightarrow> page \<Rightarrow> page \<times> string option" where
  "login_catch error st =
     (let st = emit (ConsoleError (''Login error: '' @ error)) st;
          st = emit (ToastError ''Login failed''
                       ''Invalid email or password. Please try again.'') st
      in (st, None))"

definition login_finally :: "page \<Rightarrow> page" where
  "login_finally st = setIsLoading False st"

definition login_onSubmit_with ::
  "browser \<Rightarrow> settled \<Rightarrow> LoginFormData \<Rightarrow> page \<Rightarrow> page \<times> string option" where
  "login_onSubmit_with br api data st =
     (let (st, thrown) = login_try br api data st;
          (st, thrown) = (case thrown of
                            None \<Rightarrow> (st, None)
                          | Some error \<Rightarrow> login_catch error st)
      in (login_finally st, thrown))"

definition login_onSubmit :: "browser \<Rightarrow> LoginFormData \<Rightarrow> page \<Rightarrow> page \<times> string option" where
  "login_onSubmit br data st = login_onSubmit_with br (simulated_api_call 1500) data st"

definition login_submit_with ::
  "browser \<Rightarrow> settled \<Rightarrow> LoginFormData \<Rightarrow> page \<Rightarrow> page \<times> string option" where
  "login_submit_with br api =
     handleSubmit (zodResolver loginSchema) (login_onSubmit_with br api)"

definition login_submit :: "browser \<Rightarrow> LoginFormData \<Rightarrow> page \<Rightarrow> page \<times> string option" where
  "login_submit br = handleSubmit (zodResolver loginSchema) (login_onSubmit br)"

definition login2_submit_with ::
  "(jsstring \<Rightarrow> bool) \<Rightarrow> browser \<Rightarrow> settled \<Rightarrow> LoginFormData \<Rightarrow> page \<Rightarrow>
   page \<times> string option" where
  "login2_submit_with zod_email br api =
     handleSubmit (zodResolver (loginSchema2 zod_email)) (login_onSubmit_with br api)"

definition login2_submit ::
  "(jsstring \<Rightarrow> bool) \<Rightarrow> browser \<Rightarrow> LoginFormData \<Rightarrow> page \<Rightarrow> page \<times> string option" where
  "login2_submit zod_email br =
     handleSubmit (zodResolver (loginSchema2 zod_email)) (login_onSubmit br)"

subsection \<open>Signup.tsx: \<open>onSubmit\<close>\<close>

definition signup_try ::
  "browser \<Rightarrow> settled \<Rightarrow> SignupFormData \<Rightarrow> signup_page \<Rightarrow> signup_page \<times> string option" where
  "signup_try br api data st =
     (let st = setIsLoading True st;
          st = emit (Await 2000) st
      in case api of
           Rejects error \<Rightarrow> (st, Some error)
         | Resolves \<Rightarrow>
             (let st = setIsSuccess True st
              in case toast_success br ''Account created successfully!''
                        ''Welcome aboard! Redirecting to login...'' st of
                   (st, Some error) \<Rightarrow> (st, Some error)
                 | (st, None) \<Rightarrow> setTimeout_navigate br 2500 ''/login'' st))"

definition signup_catch :: "string \<Rightarrow> signup_page \<Rightarrow> signup_page \<times> string option" where
  "signup_catch error st =
     (let st = emit (ConsoleError (''Signup error: '' @ error)) st;
          st = emit (ToastError ''Registration failed''
                       ''Something went wrong. Please try again.'') st;
          st = setIsLoading False st
      in (st, None))"

definition signup_onSubmit_with ::
  "browser \<Rightarrow> settled \<Rightarrow> SignupFormData \<Rightarrow> signup_page \<Rightarrow> signup_page \<times> string option" where
  "signup_onSubmit_with br api data st =
     (let (st, thrown) = signup_try br api data st
      in case thrown of
           None \<Rightarrow> (st, None)
         | Some error \<Rightarrow> signup_catch error st)"

definition signup_onSubmit ::
  "browser \<Rightarrow> SignupFormData \<Rightarrow> signup_page \<Rightarrow> signup_page \<times> string option" where
  "signup_onSubmit br data st = signup_onSubmit_with br (simulated_api_call 2000) data st"

definition signup_submit_with ::
  "(jsstring \<Rightarrow> bool) \<Rightarrow> browser \<Rightarrow> settled \<Rightarrow> SignupFormData \<Rightarrow> signup_page \<Rightarrow>
   signup_page \<times> string option" where
  "signup_submit_with zod_email br api =
     handleSubmit (zodResolver (signupSchema zod_email)) (signup_onSubmit_with br api)"

definition signup_submit ::
  "(jsstring \<Rightarrow> bool) \<Rightarrow> browser \<Rightarrow> SignupFormData \<Rightarrow> signup_page \<Rightarrow>
   signup_page \<times> string option" where
  "signup_submit zod_email br =
     handleSubmit (zodResolver (signupSchema zod_email)) (signup_onSubmit br)"

subsection \<open>Observations on a trace\<close>

text \<open>
  The error with which the \<open>try\<close> block ends once the \<open>await\<close> has resolved: that of the
  first call that throws, in the order of the source. The login page calls
  \<open>localStorage.setItem\<close> only when \<open>rememberMe\<close> is true.
\<close>

definition login_try_throws :: "browser \<Rightarrow> LoginFormData \<Rightarrow> string option" where
  "login_try_throws br data =
     (if rememberMe data = Some True \<and> setItem_throws br \<noteq> None then setItem_throws br
      else if toast_success_throws br \<noteq> None then toast_success_throws br
      else setTimeout_throws br)"

definition signup_try_throws :: "browser \<Rightarrow> string option" where
  "signup_try_throws br =
     (if toast_success_throws br \<noteq> None then toast_success_throws br
      else setTimeout_throws br)"

definition is_storage_write :: "event \<Rightarrow> bool" where
  "is_storage_write e = (case e of LocalStorageSetItem k v \<Rightarrow> True | _ \<Rightarrow> False)"

definition is_storage_read :: "event \<Rightarrow> bool" where
  "is_storage_read e = (case e of LocalStorageGetItem k \<Rightarrow> True | _ \<Rightarrow> False)"

definition is_error_toast :: "event \<Rightarrow> bool" where
  "is_error_toast e = (case e of ToastError t d \<Rightarrow> True | _ \<Rightarrow> False)"

definition is_toast :: "event \<Rightarrow> bool" where
  "is_toast e =
     (case e of ToastSuccess t d \<Rightarrow> True | ToastError t d \<Rightarrow> True
      | ToastInfo t d \<Rightarrow> True | _ \<Rightarrow> False)"

definition is_catch_event :: "event \<Rightarrow> bool" where
  "is_catch_event e =
     (case e of ToastError t d \<Rightarrow> True | ConsoleError m \<Rightarrow> True | _ \<Rightarrow> False)"

text \<open>The error entries of a field in the error mapping.\<close>

definition entries_for :: "string \<Rightarrow> issue list \<Rightarrow> issue list" where
  "entries_for path errors = filter (\<lambda>(p, m). p = path) errors"

text \<open>The pages as they are mounted.\<close>

definition login_mounted :: page where
  "login_mounted = \<lparr>isLoading = False, formErrors = [], pending = [], trace = []\<rparr>"

definition signup_mounted :: signup_page where
  "signup_mounted =
     \<lparr>isLoading = False, formErrors = [], pending = [], trace = [], isSuccess = False\<rparr>"

section \<open>Properties of the estimator\<close>

lemma regex_test_Class: "regex_test [Class P] s = (\<exists>c \<in> set s. P c)"
  by (induction s) auto

lemma strength_points_eq: "strength_points p = spec_score p"
  by (simp add: strength_points_def spec_score_def regex_test_Class not_alnum_def)

lemma spec_score_Nil: "spec_score [] = 0"
  by (simp add: spec_score_def)

lemma getPasswordStrength_eq: "getPasswordStrength p = spec_strength p"
  by (simp add: getPasswordStrength_def spec_strength_def spec_rating_def
      strength_points_eq spec_score_Nil Let_def)

lemmas char_class_defs =
  is_lower_def is_upper_def is_digit_def is_alpha_def is_alnum_def not_alnum_def

lemma strength_examples:
  "getPasswordStrength (js '''') = Weak"
  "getPasswordStrength (js ''abc'') = Weak"
  "getPasswordStrength (js ''Abc123!@#xyz'') = Strong"
  by (simp_all add: getPasswordStrength_def strength_points_def js_def char_class_defs)

text \<open>
  C1. On every string the estimator returns the rating of the point-scoring reference
  (one point each for length at least 8, length at least 12, a lowercase letter, an
  uppercase letter, a digit, a non-alphanumeric character; at most 2 points is weak, 3 or 4
  medium, 5 or more strong); the empty string and \<open>abc\<close> are weak and
  \<open>Abc123!@#xyz\<close> is strong.
\<close>

theorem getPasswordStrength_is_spec_strength:
  "getPasswordStrength p = spec_strength p \<and>
   getPasswordStrength (js '''') = Weak \<and>
   getPasswordStrength (js ''abc'') = Weak \<and>
   getPasswordStrength (js ''Abc123!@#xyz'') = Strong"
  by (intro conjI getPasswordStrength_eq strength_examples)

theorem getPasswordStrength_is_spec_strength_witness:
  "getPasswordStrength (js ''Passw0rd1'') = spec_strength (js ''Passw0rd1'') \<and>
   spec_strength (js ''Passw0rd1'') = Medium"
  using getPasswordStrength_is_spec_strength [of "js ''Passw0rd1''"]
  by (simp add: getPasswordStrength_def strength_points_def js_def char_class_defs)

lemma spec_score_append_mono: "spec_score p \<le> spec_score (p @ q)"
  unfolding spec_score_def
  by (intro add_mono) (auto simp: of_bool_def)

text \<open>
  C2. Appending to a password one character whose class (lowercase, uppercase, digit or
  non-alphanumeric) the password does not yet contain never lowers the score.
\<close>

theorem strength_points_new_class_mono:
  "\<not> has_class (class_of c) p \<Longrightarrow> strength_points p \<le> strength_points (p @ [c])"
  by (simp add: strength_points_eq spec_score_append_mono)

theorem strength_points_new_class_mono_witness:
  "\<not> has_class (class_of 0x31) (js ''abcdefg'') \<and>
   strength_points (js ''abcdefg'') = 1 \<and>
   strength_points (js ''abcdefg'' @ [0x31]) = 3"
  using strength_points_new_class_mono [of "0x31" "js ''abcdefg''"]
  by (simp add: strength_points_def js_def has_class_def class_of_def char_class_defs)

lemma spec_score_short: "length p < 8 \<Longrightarrow> spec_score p \<le> 4"
  by (simp add: spec_score_def of_bool_def)

text \<open>
  C9. A password rated strong has at least 8 characters: the four character classes give
  at most 4 points, and strong needs 5.
\<close>

theorem strong_has_length_8: "getPasswordStrength p = Strong \<Longrightarrow> 8 \<le> length p"
proof (rule ccontr)
  assume s: "getPasswordStrength p = Strong" and "\<not> 8 \<le> length p"
  then have "spec_score p \<le> 4"
    by (simp add: spec_score_short)
  then have "spec_strength p \<noteq> Strong"
    by (simp add: spec_strength_def spec_rating_def)
  with s show False
    by (simp add: getPasswordStrength_eq)
qed

theorem strong_has_length_8_witness:
  "getPasswordStrength (js ''Abc123!@#xyz'') = Strong \<and> 8 \<le> length (js ''Abc123!@#xyz'')"
proof -
  have h: "getPasswordStrength (js ''Abc123!@#xyz'') = Strong"
    by (simp add: getPasswordStrength_def strength_points_def js_def char_class_defs)
  from strong_has_length_8 [OF h] h show ?thesis
    by simp
qed

section \<open>Properties of validation and submission\<close>

lemma map_of_parseErrorSchema:
  "map_of (parseErrorSchema is acc) k =
     (case map_of acc k of Some m \<Rightarrow> Some m | None \<Rightarrow> map_of is k)"
  by (induction "is" acc rule: parseErrorSchema.induct)
     (auto simp: map_add_def split: option.splits)

lemma map_of_parseErrorSchema_Nil: "map_of (parseErrorSchema is []) = map_of is"
  by (rule ext) (simp add: map_of_parseErrorSchema)

lemma distinct_parseErrorSchema:
  "distinct (map fst acc) \<Longrightarrow> distinct (map fst (parseErrorSchema is acc))"
  by (induction "is" acc rule: parseErrorSchema.induct)
     (auto simp: map_of_eq_None_iff)

lemma entries_for_distinct:
  "distinct (map fst errs) \<Longrightarrow>
   entries_for k errs = (case map_of errs k of None \<Rightarrow> [] | Some m \<Rightarrow> [(k, m)])"
proof (induction errs)
  case Nil
  then show ?case by (simp add: entries_for_def)
next
  case (Cons e errs)
  obtain p m where e: "e = (p, m)" by (cases e)
  show ?case
  proof (cases "p = k")
    case True
    with Cons.prems e have "map_of errs k = None"
      by (simp add: map_of_eq_None_iff)
    with Cons e True show ?thesis
      by (simp add: entries_for_def)
  next
    case False
    with Cons e show ?thesis
      by (simp add: entries_for_def)
  qed
qed

lemma entries_for_parseErrorSchema:
  "entries_for k (parseErrorSchema is []) =
     (case map_of is k of None \<Rightarrow> [] | Some m \<Rightarrow> [(k, m)])"
  by (simp add: entries_for_distinct distinct_parseErrorSchema map_of_parseErrorSchema_Nil)

lemma zodResolver_Inr: "snd (schema v) = [] \<Longrightarrow> zodResolver schema v = Inr (fst (schema v))"
  by (cases "schema v") (simp add: zodResolver_def)

lemma zodResolver_Inl:
  "snd (schema v) \<noteq> [] \<Longrightarrow> zodResolver schema v = Inl (parseErrorSchema (snd (schema v)) [])"
  by (cases "schema v") (auto simp: zodResolver_def split: list.splits)

lemma map_of_field_issues:
  "map_of (field_issues p cs v) k =
     (if k = p then (case snd (run_checks cs v) of [] \<Rightarrow> None | m # ms \<Rightarrow> Some m) else None)"
  by (cases "snd (run_checks cs v)") (auto simp: field_issues_def map_of_eq_None_iff)

lemmas workflow_defs =
  login_onSubmit_def login_onSubmit_with_def login_try_def login_catch_def login_finally_def
  signup_onSubmit_def signup_onSubmit_with_def signup_try_def signup_catch_def
  setIsLoading_def setIsSuccess_def setTimeout_navigate_def toast_success_def
  localStorage_setItem_def emit_def simulated_api_call_def

lemmas event_defs =
  is_storage_write_def is_storage_read_def is_error_toast_def is_catch_event_def is_toast_def

lemma login_onSubmit_with_Resolves:
  "login_onSubmit_with browser_ok Resolves data st =
     (st\<lparr>isLoading := False,
         pending := pending st @ [(1000, ''/'')],
         trace := trace st @ [SetIsLoading True, Await 1500] @
           (if rememberMe data = Some True
            then [LocalStorageSetItem ''rememberMe'' ''true''] else []) @
           [ToastSuccess ''Login successful! Welcome back.'' ''Redirecting to dashboard...'',
            SetTimeout 1000 ''/'', SetIsLoading False]\<rparr>, None)"
  by (simp add: workflow_defs browser_ok_def)

lemma login_onSubmit_with_Rejects:
  "login_onSubmit_with br (Rejects error) data st =
     (st\<lparr>isLoading := False,
         trace := trace st @
           [SetIsLoading True, Await 1500, ConsoleError (''Login error: '' @ error),
            ToastError ''Login failed'' ''Invalid email or password. Please try again.'',
            SetIsLoading False]\<rparr>, None)"
  by (simp add: workflow_defs)

lemma signup_onSubmit_with_Resolves:
  "signup_onSubmit_with browser_ok Resolves data st =
     (st\<lparr>isLoading := True,
         pending := pending st @ [(2500, ''/login'')],
         trace := trace st @
           [SetIsLoading True, Await 2000, SetIsSuccess True,
            ToastSuccess ''Account created successfully!''
              ''Welcome aboard! Redirecting to login...'',
            SetTimeout 2500 ''/login''],
         isSuccess := True\<rparr>, None)"
  by (simp add: workflow_defs browser_ok_def)

lemma signup_onSubmit_with_Rejects:
  "signup_onSubmit_with br (Rejects error) data st =
     (st\<lparr>isLoading := False,
         trace := trace st @
           [SetIsLoading True, Await 2000, ConsoleError (''Signup error: '' @ error),
            ToastError ''Registration failed'' ''Something went wrong. Please try again.'',
            SetIsLoading False]\<rparr>, None)"
  by (simp add: workflow_defs)

text \<open>The \<open>try\<close> block once the \<open>await\<close> has resolved, call by call.\<close>

lemma login_try_Resolves:
  "login_try br Resolves data st =
     (let st1 = st\<lparr>isLoading := True, trace := trace st @ [SetIsLoading True, Await 1500]\<rparr>
      in if rememberMe data = Some True \<and> setItem_throws br \<noteq> None
         then (st1, setItem_throws br)
         else let st2 = st1\<lparr>trace := trace st1 @
                    (if rememberMe data = Some True
                     then [LocalStorageSetItem ''rememberMe'' ''true''] else [])\<rparr>
              in if toast_success_throws br \<noteq> None then (st2, toast_success_throws br)
                 else let st3 = st2\<lparr>trace := trace st2 @
                            [ToastSuccess ''Login successful! Welcome back.''
                               ''Redirecting to dashboard...'']\<rparr>
                      in if setTimeout_throws br \<noteq> None then (st3, setTimeout_throws br)
                         else (st3\<lparr>pending := pending st @ [(1000, ''/'')],
                                   trace := trace st3 @ [SetTimeout 1000 ''/'']\<rparr>, None))"
  by (cases "setItem_throws br"; cases "toast_success_throws br"; cases "setTimeout_throws br")
     (simp_all add: login_try_def setIsLoading_def setTimeout_navigate_def toast_success_def
        localStorage_setItem_def emit_def Let_def)

lemma signup_try_Resolves:
  "signup_try br Resolves data st =
     (let st1 = st\<lparr>isLoading := True,
                   trace := trace st @ [SetIsLoading True, Await 2000, SetIsSuccess True],
                   isSuccess := True\<rparr>
      in if toast_success_throws br \<noteq> None then (st1, toast_success_throws br)
         else let st2 = st1\<lparr>trace := trace st1 @
                    [ToastSuccess ''Account created successfully!''
                       ''Welcome aboard! Redirecting to login...'']\<rparr>
              in if setTimeout_throws br \<noteq> None then (st2, setTimeout_throws br)
                 else (st2\<lparr>pending := pending st @ [(2500, ''/login'')],
                           trace := trace st2 @ [SetTimeout 2500 ''/login'']\<rparr>, None))"
  by (cases "toast_success_throws br"; cases "setTimeout_throws br")
     (simp_all add: signup_try_def setIsLoading_def setIsSuccess_def setTimeout_navigate_def
        toast_success_def emit_def Let_def)

lemma login_try_thrown: "snd (login_try br Resolves data st) = login_try_throws br data"
  by (auto simp: login_try_Resolves login_try_throws_def Let_def)

lemma signup_try_thrown: "snd (signup_try br Resolves data st) = signup_try_throws br"
  by (auto simp: signup_try_Resolves signup_try_throws_def Let_def)

lemma login_try_formErrors: "formErrors (fst (login_try br Resolves data st)) = formErrors st"
  by (simp add: login_try_Resolves Let_def)

lemma signup_try_formErrors: "formErrors (fst (signup_try br Resolves data st)) = formErrors st"
  by (simp add: signup_try_Resolves Let_def)

lemma login_try_catch_events:
  "filter is_catch_event (trace (fst (login_try br Resolves data st))) =
   filter is_catch_event (trace st)"
  by (simp add: login_try_Resolves Let_def event_defs)

lemma signup_try_catch_events:
  "filter is_catch_event (trace (fst (signup_try br Resolves data st))) =
   filter is_catch_event (trace st)"
  by (simp add: signup_try_Resolves Let_def event_defs)

lemma login_try_storage:
  "filter is_storage_write (trace (fst (login_try br Resolves data st))) =
     filter is_storage_write (trace st) @
     (if rememberMe data = Some True \<and> setItem_throws br = None
      then [LocalStorageSetItem ''rememberMe'' ''true''] else []) \<and>
   filter is_storage_read (trace (fst (login_try br Resolves data st))) =
     filter is_storage_read (trace st)"
  by (auto simp: login_try_Resolves Let_def event_defs)

text \<open>The handler around the \<open>try\<close> block.\<close>

lemma login_onSubmit_with_unfold:
  "login_onSubmit_with br api data st =
     (case snd (login_try br api data st) of
        None \<Rightarrow> (setIsLoading False (fst (login_try br api data st)), None)
      | Some error \<Rightarrow>
          (setIsLoading False (fst (login_catch error (fst (login_try br api data st)))), None))"
  by (cases "login_try br api data st")
     (simp add: login_onSubmit_with_def login_catch_def login_finally_def Let_def
        split: option.splits)

lemma signup_onSubmit_with_unfold:
  "signup_onSubmit_with br api data st =
     (case snd (signup_try br api data st) of
        None \<Rightarrow> (fst (signup_try br api data st), None)
      | Some error \<Rightarrow> signup_catch error (fst (signup_try br api data st)))"
  by (cases "signup_try br api data st")
     (simp add: signup_onSubmit_with_def split: option.splits)

lemma trace_setIsLoading: "trace (setIsLoading v st) = trace st @ [SetIsLoading v]"
  by (simp add: setIsLoading_def emit_def)

lemma formErrors_setIsLoading: "formErrors (setIsLoading v st) = formErrors st"
  by (simp add: setIsLoading_def emit_def)

lemma isLoading_setIsLoading: "isLoading (setIsLoading v st) = v"
  by (simp add: setIsLoading_def emit_def)

lemma login_catch_unfold:
  "fst (login_catch error st) =
     st\<lparr>trace := trace st @
        [ConsoleError (''Login error: '' @ error),
         ToastError ''Login failed'' ''Invalid email or password. Please try again.'']\<rparr>"
  by (simp add: login_catch_def emit_def)

lemma signup_catch_unfold:
  "signup_catch error st =
     (st\<lparr>isLoading := False,
         trace := trace st @
           [ConsoleError (''Signup error: '' @ error),
            ToastError ''Registration failed'' ''Something went wrong. Please try again.'',
            SetIsLoading False]\<rparr>, None)"
  by (simp add: signup_catch_def setIsLoading_def emit_def)

lemma login_onSubmit_with_formErrors:
  "formErrors (fst (login_onSubmit_with br api data st)) = formErrors st"
proof (cases api)
  case Resolves
  then show ?thesis
    by (simp add: login_onSubmit_with_unfold formErrors_setIsLoading login_catch_unfold
        login_try_formErrors split: option.splits)
next
  case (Rejects error)
  then show ?thesis
    by (simp add: login_onSubmit_with_Rejects)
qed

lemma signup_onSubmit_with_formErrors:
  "formErrors (fst (signup_onSubmit_with br api data st)) = formErrors st"
proof (cases api)
  case Resolves
  then show ?thesis
    by (simp add: signup_onSubmit_with_unfold signup_catch_unfold signup_try_formErrors
        split: option.splits)
next
  case (Rejects error)
  then show ?thesis
    by (simp add: signup_onSubmit_with_Rejects)
qed

lemma login_onSubmit_with_isLoading: "\<not> isLoading (fst (login_onSubmit_with br api data st))"
  by (simp add: login_onSubmit_with_unfold isLoading_setIsLoading split: option.splits)

lemma login_onSubmit_with_catch_events:
  "filter is_catch_event (trace (fst (login_onSubmit_with br Resolves data st))) =
     filter is_catch_event (trace st) @
     (case login_try_throws br data of
        None \<Rightarrow> []
      | Some error \<Rightarrow>
          [ConsoleError (''Login error: '' @ error),
           ToastError ''Login failed'' ''Invalid email or password. Please try again.''])"
  by (simp add: login_onSubmit_with_unfold login_try_thrown trace_setIsLoading
      login_catch_unfold login_try_catch_events split: option.splits)
     (simp add: event_defs)

lemma signup_onSubmit_with_catch_events:
  "filter is_catch_event (trace (fst (signup_onSubmit_with br Resolves data st))) =
     filter is_catch_event (trace st) @
     (case signup_try_throws br of
        None \<Rightarrow> []
      | Some error \<Rightarrow>
          [ConsoleError (''Signup error: '' @ error),
           ToastError ''Registration failed'' ''Something went wrong. Please try again.''])"
  by (simp add: signup_onSubmit_with_unfold signup_try_thrown signup_catch_unfold
      signup_try_catch_events split: option.splits)
     (simp add: event_defs)

lemma login_onSubmit_storage:
  "filter is_storage_write (trace (fst (login_onSubmit_with br api data st))) =
     filter is_storage_write (trace st) @
     (if api = Resolves \<and> rememberMe data = Some True \<and> setItem_throws br = None
      then [LocalStorageSetItem ''rememberMe'' ''true''] else []) \<and>
   filter is_storage_read (trace (fst (login_onSubmit_with br api data st))) =
     filter is_storage_read (trace st)"
proof (cases api)
  case Resolves
  then show ?thesis
    by (simp add: login_onSubmit_with_unfold trace_setIsLoading login_catch_unfold
        login_try_storage split: option.splits)
       (simp add: event_defs)
next
  case (Rejects error)
  then show ?thesis
    by (simp add: login_onSubmit_with_Rejects event_defs)
qed

lemma handleSubmit_Inl:
  "snd (schema v) \<noteq> [] \<Longrightarrow>
   handleSubmit (zodResolver schema) onValid v st =
     (st\<lparr>formErrors := parseErrorSchema (snd (schema v)) []\<rparr>, None)"
  by (simp add: handleSubmit_def zodResolver_Inl)

lemma handleSubmit_Inr:
  "snd (schema v) = [] \<Longrightarrow>
   handleSubmit (zodResolver schema) onValid v st =
     onValid (fst (schema v)) (st\<lparr>formErrors := []\<rparr>)"
  by (simp add: handleSubmit_def zodResolver_Inr)

subsection \<open>The signup schema\<close>

lemma signup_password_messages:
  "snd (run_checks signup_password_checks p) =
     (if length p < 1 then [''Password is required''] else []) @
     (if length p < 8 then [''Password must be at least 8 characters''] else []) @
     (if length p > 100 then [''Password must be less than 100 characters''] else []) @
     (if \<not> (\<exists>c \<in> set p. is_upper c)
      then [''Password must contain at least one uppercase letter''] else []) @
     (if \<not> (\<exists>c \<in> set p. is_lower c)
      then [''Password must contain at least one lowercase letter''] else []) @
     (if \<not> (\<exists>c \<in> set p. is_digit c)
      then [''Password must contain at least one number''] else [])"
  by (simp add: signup_password_checks_def nonempty_def regex_test_Class)

lemma signup_password_value: "field_value signup_password_checks p = p"
  by (simp add: field_value_def signup_password_checks_def nonempty_def)

lemma confirmPassword_value: "field_value confirmPassword_checks p = p"
  by (simp add: field_value_def confirmPassword_checks_def nonempty_def)

lemma signupSchema_issues:
  "snd (signupSchema zod_email data) =
     snd (signup_object zod_email data) @
     (if password data = confirmPassword data then []
      else [(''confirmPassword'', ''Passwords don't match'')])"
  by (simp add: signupSchema_def signup_object_def signup_password_value confirmPassword_value)

lemma signup_submit_formErrors:
  "map_of (formErrors (fst (signup_submit_with zod_email br api data st))) =
   map_of (snd (signupSchema zod_email data))"
proof (cases "snd (signupSchema zod_email data) = []")
  case True
  then show ?thesis
    by (simp add: signup_submit_with_def handleSubmit_Inr signup_onSubmit_with_formErrors)
next
  case False
  then show ?thesis
    by (simp add: signup_submit_with_def handleSubmit_Inl map_of_parseErrorSchema_Nil)
qed

lemma signup_password_error:
  "map_of (snd (signupSchema zod_email data)) ''password'' =
     (case snd (run_checks signup_password_checks (password data)) of
        [] \<Rightarrow> None | m # ms \<Rightarrow> Some m)"
  by (simp add: signupSchema_issues signup_object_def map_add_def map_of_field_issues
      split: option.splits list.splits)

lemma first_violated_password:
  "first_violated spec_password_constraints p =
     (case snd (run_checks signup_password_checks p) of [] \<Rightarrow> None | m # ms \<Rightarrow> Some m)"
  unfolding signup_password_messages first_violated_def spec_password_constraints_def
  by (cases p) (simp_all add: not_le)

text \<open>
  C3. The signup form accepts a password (the error mapping has no entry for the field
  \<open>password\<close>) if and only if it is non-empty, has at least 8 and at most 100 characters
  and contains an uppercase letter, a lowercase letter and a digit; otherwise the entry of
  the field is the message of the first violated constraint, in that order.
\<close>

theorem signup_password_first_violated:
  "map_of (formErrors (fst (signup_submit_with zod_email br api data st))) ''password'' =
     first_violated spec_password_constraints (password data) \<and>
   (map_of (formErrors (fst (signup_submit_with zod_email br api data st))) ''password'' = None
      \<longleftrightarrow>
    password data \<noteq> [] \<and> 8 \<le> length (password data) \<and> length (password data) \<le> 100 \<and>
    (\<exists>c \<in> set (password data). is_upper c) \<and> (\<exists>c \<in> set (password data). is_lower c) \<and>
    (\<exists>c \<in> set (password data). is_digit c))"
proof -
  have e: "map_of (formErrors (fst (signup_submit_with zod_email br api data st))) ''password'' =
      (case snd (run_checks signup_password_checks (password data)) of
         [] \<Rightarrow> None | m # ms \<Rightarrow> Some m)"
    by (simp add: signup_submit_formErrors signup_password_error)
  have a: "(case snd (run_checks signup_password_checks p) of [] \<Rightarrow> None | m # ms \<Rightarrow> Some m)
        = None \<longleftrightarrow>
      p \<noteq> [] \<and> 8 \<le> length p \<and> length p \<le> 100 \<and>
      (\<exists>c \<in> set p. is_upper c) \<and> (\<exists>c \<in> set p. is_lower c) \<and> (\<exists>c \<in> set p. is_digit c)"
    for p
    unfolding signup_password_messages by (cases p) (auto simp: not_le)
  show ?thesis
    unfolding e by (simp only: first_violated_password a simp_thms)
qed

lemma signup_mismatch_submit:
  assumes "snd (signup_object zod_email data) = []"
    and "password data \<noteq> confirmPassword data"
  shows "signup_submit_with zod_email br api data st =
     (st\<lparr>formErrors := [(''confirmPassword'', ''Passwords don't match'')]\<rparr>, None)"
proof -
  from assms have "snd (signupSchema zod_email data) =
      [(''confirmPassword'', ''Passwords don't match'')]"
    by (simp add: signupSchema_issues)
  then show ?thesis
    by (simp add: signup_submit_with_def handleSubmit_Inl)
qed

text \<open>
  C4. When every field of a signup submission passes its own constraints and the
  password differs from its confirmation, validation fails with the single error
  \<open>Passwords don't match\<close> on the field \<open>confirmPassword\<close>, none on \<open>password\<close>, and
  the submission does not proceed: \<open>onSubmit\<close> is not called, the trace and the loading
  flag are unchanged.
\<close>

theorem signup_mismatch_on_confirmPassword:
  assumes "snd (signup_object zod_email data) = []"
    and "password data \<noteq> confirmPassword data"
  shows "signup_submit_with zod_email br api data st =
           (st\<lparr>formErrors := [(''confirmPassword'', ''Passwords don't match'')]\<rparr>, None) \<and>
         entries_for ''confirmPassword''
             (formErrors (fst (signup_submit_with zod_email br api data st))) =
           [(''confirmPassword'', ''Passwords don't match'')] \<and>
         entries_for ''password''
             (formErrors (fst (signup_submit_with zod_email br api data st))) = [] \<and>
         trace (fst (signup_submit_with zod_email br api data st)) = trace st \<and>
         isLoading (fst (signup_submit_with zod_email br api data st)) = isLoading st"
  by (simp add: signup_mismatch_submit [OF assms] entries_for_def)

lemmas regex_defs =
  regex_test_anchored_def EMAIL_REGEX_def email_local_def email_domain_def is_dot_def
  is_at_def name_char_def not_line_terminator_def is_line_terminator_def is_space_def
  char_class_defs

lemmas schema_defs =
  field_issues_def field_value_def nonempty_def js_trim_def js_def
  login_email_checks_def login_password_checks_def
  login2_email_checks_def login2_password_checks_def
  fullName_checks_def signup_email_checks_def signup_password_checks_def
  confirmPassword_checks_def

theorem signup_mismatch_on_confirmPassword_witness:
  "snd (signup_object (regex_test_anchored EMAIL_REGEX)
      \<lparr>email = js ''ada@example.com'', password = js ''Abcdef12'',
       fullName = js ''Ada Lovelace'', confirmPassword = js ''Abcdef13''\<rparr>) = [] \<and>
   signup_submit_with (regex_test_anchored EMAIL_REGEX) browser_ok Resolves
      \<lparr>email = js ''ada@example.com'', password = js ''Abcdef12'',
       fullName = js ''Ada Lovelace'', confirmPassword = js ''Abcdef13''\<rparr> signup_mounted =
     (signup_mounted\<lparr>formErrors := [(''confirmPassword'', ''Passwords don't match'')]\<rparr>, None)"
proof -
  let ?d = "\<lparr>email = js ''ada@example.com'', password = js ''Abcdef12'',
       fullName = js ''Ada Lovelace'', confirmPassword = js ''Abcdef13''\<rparr>"
  have h1: "snd (signup_object (regex_test_anchored EMAIL_REGEX) ?d) = []"
    by (simp add: signup_object_def schema_defs regex_defs)
  have h2: "password ?d \<noteq> confirmPassword ?d"
    by (simp add: js_def)
  from signup_mismatch_on_confirmPassword [OF h1 h2, of browser_ok Resolves signup_mounted] h1 show ?thesis
    by simp
qed

subsection \<open>The login schema\<close>

lemma login_email_messages:
  "snd (run_checks login_email_checks e) =
     (if js_trim e = [] then [''Email is required''] else []) @
     (if \<not> regex_test_anchored EMAIL_REGEX (js_trim e)
      then [''Please enter a valid email address''] else [])"
  by (cases "js_trim e") (simp_all add: login_email_checks_def nonempty_def)

lemma login_email_error:
  "map_of (snd (loginSchema data)) ''email'' =
     (case snd (run_checks login_email_checks (email data)) of
        [] \<Rightarrow> None | m # ms \<Rightarrow> Some m)"
  by (simp add: loginSchema_def map_add_def map_of_field_issues
      split: option.splits list.splits)

lemma login_email_issue_nonempty:
  "\<not> regex_test_anchored EMAIL_REGEX (js_trim (email data)) \<Longrightarrow> snd (loginSchema data) \<noteq> []"
  by (simp add: loginSchema_def field_issues_def login_email_messages)

text \<open>
  C5 (amended). For every login submission whose trimmed email fails the pattern check,
  the error mapping has exactly one entry for \<open>email\<close>, the submission never enters the
  submitting state (no event is emitted) and the loading flag keeps its value. The message
  is \<open>Please enter a valid email address\<close> when the trimmed email is non-empty; when it
  is empty, the message is \<open>Email is required\<close>, the message of the earlier constraint.
\<close>

theorem login_invalid_email_blocked:
  assumes "\<not> regex_test_anchored EMAIL_REGEX (js_trim (email data))"
  shows "entries_for ''email'' (formErrors (fst (login_submit_with br api data st))) =
           [(''email'', if js_trim (email data) = [] then ''Email is required''
                        else ''Please enter a valid email address'')] \<and>
         trace (fst (login_submit_with br api data st)) = trace st \<and>
         isLoading (fst (login_submit_with br api data st)) = isLoading st"
proof -
  have s: "login_submit_with br api data st =
      (st\<lparr>formErrors := parseErrorSchema (snd (loginSchema data)) []\<rparr>, None)"
    using login_email_issue_nonempty [OF assms]
    by (simp add: login_submit_with_def handleSubmit_Inl)
  show ?thesis
    using assms
    by (simp add: s entries_for_parseErrorSchema login_email_error login_email_messages)
qed

lemma login_submit_eq: "login_submit br = login_submit_with br Resolves"
  by (rule ext)+ (simp add: login_submit_def login_submit_with_def login_onSubmit_def
        simulated_api_call_def handleSubmit_def split: sum.splits)

theorem login_invalid_email_blocked_witness:
  "\<not> regex_test_anchored EMAIL_REGEX (js_trim (js ''not-an-email'')) \<and>
   entries_for ''email'' (formErrors (fst (login_submit browser_ok
       \<lparr>email = js ''not-an-email'', password = js ''Passw0rd1'', rememberMe = Some False\<rparr>
       login_mounted))) = [(''email'', ''Please enter a valid email address'')] \<and>
   trace (fst (login_submit browser_ok
       \<lparr>email = js ''not-an-email'', password = js ''Passw0rd1'', rememberMe = Some False\<rparr>
       login_mounted)) = [] \<and>
   \<not> isLoading (fst (login_submit browser_ok
       \<lparr>email = js ''not-an-email'', password = js ''Passw0rd1'', rememberMe = Some False\<rparr>
       login_mounted))"
proof -
  let ?d = "\<lparr>email = js ''not-an-email'', password = js ''Passw0rd1'',
              rememberMe = Some False\<rparr>"
  have t: "js_trim (js ''not-an-email'') = js ''not-an-email''"
    by (simp add: js_trim_def js_def is_space_def)
  have h: "\<not> regex_test_anchored EMAIL_REGEX (js_trim (email ?d))"
    by (simp add: t) (simp add: js_def regex_defs)
  have n: "js_trim (email ?d) \<noteq> []"
    by (simp add: t) (simp add: js_def)
  from login_invalid_email_blocked [OF h, of browser_ok Resolves login_mounted] h n show ?thesis
    by (simp add: login_submit_eq login_mounted_def)
qed

text \<open>
  The empty email fails the pattern check, and its entry is \<open>Email is required\<close>, not
  \<open>Please enter a valid email address\<close>.
\<close>

theorem login_empty_email_counterexample:
  "\<not> regex_test_anchored EMAIL_REGEX (js_trim (js '''')) \<and>
   entries_for ''email'' (formErrors (fst (login_submit browser_ok
       \<lparr>email = js '''', password = js ''Passw0rd1'', rememberMe = Some False\<rparr>
       login_mounted))) = [(''email'', ''Email is required'')] \<and>
   entries_for ''email'' (formErrors (fst (login_submit browser_ok
       \<lparr>email = js '''', password = js ''Passw0rd1'', rememberMe = Some False\<rparr>
       login_mounted))) \<noteq> [(''email'', ''Please enter a valid email address'')]"
  by (simp add: login_submit_def handleSubmit_def zodResolver_def loginSchema_def
      schema_defs entries_for_def login_mounted_def regex_defs)

theorem signup_password_first_violated_witness:
  "map_of (formErrors (fst (signup_submit_with (regex_test_anchored EMAIL_REGEX) browser_ok Resolves
      \<lparr>email = js ''ada@example.com'', password = js ''abcdefgh'',
       fullName = js ''Ada Lovelace'', confirmPassword = js ''abcdefgh''\<rparr> signup_mounted)))
      ''password'' = Some ''Password must contain at least one uppercase letter'' \<and>
   first_violated spec_password_constraints (js ''abcdefgh'') =
      Some ''Password must contain at least one uppercase letter'' \<and>
   (\<exists>c \<in> set (js ''abcdefgh''). is_lower c) \<and> \<not> (\<exists>c \<in> set (js ''abcdefgh''). is_upper c)"
proof -
  have f: "first_violated spec_password_constraints (js ''abcdefgh'') =
      Some ''Password must contain at least one uppercase letter''"
    by (simp add: first_violated_def spec_password_constraints_def js_def char_class_defs)
  have c: "(\<exists>c \<in> set (js ''abcdefgh''). is_lower c) \<and>
      \<not> (\<exists>c \<in> set (js ''abcdefgh''). is_upper c)"
    by (simp add: js_def char_class_defs)
  from signup_password_first_violated [of "regex_test_anchored EMAIL_REGEX" browser_ok Resolves
      "\<lparr>email = js ''ada@example.com'', password = js ''abcdefgh'',
        fullName = js ''Ada Lovelace'', confirmPassword = js ''abcdefgh''\<rparr>" signup_mounted]
    f c show ?thesis
    by simp
qed

subsection \<open>The workflow\<close>

lemma loginSchema_rememberMe: "rememberMe (fst (loginSchema data)) = rememberMe data"
  by (simp add: loginSchema_def)

lemma loginSchema2_rememberMe: "rememberMe (fst (loginSchema2 zod_email data)) = rememberMe data"
  by (simp add: loginSchema2_def)

lemma handleSubmit_login_storage:
  assumes "\<And>v. rememberMe (fst (schema v)) = rememberMe v"
  shows "filter is_storage_write
           (trace (fst (handleSubmit (zodResolver schema) (login_onSubmit_with br api)
              data st))) =
         filter is_storage_write (trace st) @
         (if snd (schema data) = [] \<and> api = Resolves \<and> rememberMe data = Some True \<and>
             setItem_throws br = None
          then [LocalStorageSetItem ''rememberMe'' ''true''] else []) \<and>
         filter is_storage_read
           (trace (fst (handleSubmit (zodResolver schema) (login_onSubmit_with br api)
              data st))) =
         filter is_storage_read (trace st)"
proof (cases "snd (schema data) = []")
  case True
  then show ?thesis
    by (simp add: handleSubmit_Inr login_onSubmit_storage assms)
next
  case False
  then show ?thesis
    by (simp add: handleSubmit_Inl)
qed

lemma login_submit_storage:
  "filter is_storage_write (trace (fst (login_submit_with br api data st))) =
     filter is_storage_write (trace st) @
     (if snd (loginSchema data) = [] \<and> api = Resolves \<and> rememberMe data = Some True \<and>
         setItem_throws br = None
      then [LocalStorageSetItem ''rememberMe'' ''true''] else []) \<and>
   filter is_storage_read (trace (fst (login_submit_with br api data st))) =
     filter is_storage_read (trace st)"
  unfolding login_submit_with_def
  by (rule handleSubmit_login_storage) (rule loginSchema_rememberMe)

lemma login2_submit_storage:
  "filter is_storage_write (trace (fst (login2_submit_with zod_email br api data st))) =
     filter is_storage_write (trace st) @
     (if snd (loginSchema2 zod_email data) = [] \<and> api = Resolves \<and>
         rememberMe data = Some True \<and> setItem_throws br = None
      then [LocalStorageSetItem ''rememberMe'' ''true''] else []) \<and>
   filter is_storage_read (trace (fst (login2_submit_with zod_email br api data st))) =
     filter is_storage_read (trace st)"
  unfolding login2_submit_with_def
  by (rule handleSubmit_login_storage) (rule loginSchema2_rememberMe)

lemma setItem_throws_browser_ok: "setItem_throws browser_ok = None"
  by (simp add: browser_ok_def)

text \<open>
  C6. In a browser whose calls return normally, a login submission writes to local storage
  exactly when validation passes, the asynchronous step resolves and \<open>rememberMe\<close> is
  true in the submitted data; the write is then the single
  \<open>setItem('rememberMe', 'true')\<close>, and otherwise nothing is written. In every browser the
  same holds with the further condition that \<open>setItem\<close> itself returns normally, and local
  storage is never read. This holds for both variants of the login page.
\<close>

theorem rememberMe_written_on_success:
  "filter is_storage_write (trace (fst (login_submit_with browser_ok api data st))) =
     filter is_storage_write (trace st) @
     (if snd (loginSchema data) = [] \<and> api = Resolves \<and> rememberMe data = Some True
      then [LocalStorageSetItem ''rememberMe'' ''true''] else []) \<and>
   filter is_storage_write (trace (fst (login2_submit_with zod_email browser_ok api data st))) =
     filter is_storage_write (trace st) @
     (if snd (loginSchema2 zod_email data) = [] \<and> api = Resolves \<and> rememberMe data = Some True
      then [LocalStorageSetItem ''rememberMe'' ''true''] else []) \<and>
   filter is_storage_write (trace (fst (login_submit_with br api data st))) =
     filter is_storage_write (trace st) @
     (if snd (loginSchema data) = [] \<and> api = Resolves \<and> rememberMe data = Some True \<and>
         setItem_throws br = None
      then [LocalStorageSetItem ''rememberMe'' ''true''] else []) \<and>
   filter is_storage_read (trace (fst (login_submit_with br api data st))) =
     filter is_storage_read (trace st) \<and>
   filter is_storage_write (trace (fst (login2_submit_with zod_email br api data st))) =
     filter is_storage_write (trace st) @
     (if snd (loginSchema2 zod_email data) = [] \<and> api = Resolves \<and>
         rememberMe data = Some True \<and> setItem_throws br = None
      then [LocalStorageSetItem ''rememberMe'' ''true''] else []) \<and>
   filter is_storage_read (trace (fst (login2_submit_with zod_email br api data st))) =
     filter is_storage_read (trace st)"
proof -
  note a = login_submit_storage [of browser_ok api data st]
  note b = login2_submit_storage [of zod_email browser_ok api data st]
  note c = login_submit_storage [of br api data st]
  note d = login2_submit_storage [of zod_email br api data st]
  have a': "filter is_storage_write (trace (fst (login_submit_with browser_ok api data st))) =
     filter is_storage_write (trace st) @
     (if snd (loginSchema data) = [] \<and> api = Resolves \<and> rememberMe data = Some True
      then [LocalStorageSetItem ''rememberMe'' ''true''] else [])"
    using a by (simp add: setItem_throws_browser_ok)
  have b': "filter is_storage_write
       (trace (fst (login2_submit_with zod_email browser_ok api data st))) =
     filter is_storage_write (trace st) @
     (if snd (loginSchema2 zod_email data) = [] \<and> api = Resolves \<and> rememberMe data = Some True
      then [LocalStorageSetItem ''rememberMe'' ''true''] else [])"
    using b by (simp add: setItem_throws_browser_ok)
  show ?thesis
    by (intro conjI a' b' conjunct1 [OF c] conjunct2 [OF c] conjunct1 [OF d] conjunct2 [OF d])
qed

theorem rememberMe_written_on_success_witness:
  "snd (loginSchema
      \<lparr>email = js ''user@example.com'', password = js ''Passw0rd1'',
       rememberMe = Some True\<rparr>) = [] \<and>
   filter is_storage_write (trace (fst (login_submit browser_ok
      \<lparr>email = js ''user@example.com'', password = js ''Passw0rd1'',
       rememberMe = Some True\<rparr> login_mounted))) =
     [LocalStorageSetItem ''rememberMe'' ''true''] \<and>
   filter is_storage_read (trace (fst (login_submit browser_ok
      \<lparr>email = js ''user@example.com'', password = js ''Passw0rd1'',
       rememberMe = Some True\<rparr> login_mounted))) = []"
proof -
  let ?d = "\<lparr>email = js ''user@example.com'', password = js ''Passw0rd1'',
       rememberMe = Some True\<rparr>"
  have v: "snd (loginSchema ?d) = []"
    by (simp add: loginSchema_def schema_defs regex_defs)
  from rememberMe_written_on_success
    [of Resolves ?d login_mounted "regex_test_anchored EMAIL_REGEX" browser_ok] v
  show ?thesis
    by (simp add: login_submit_eq login_mounted_def)
qed

text \<open>
  C7. When the asynchronous step fails, \<open>onSubmit\<close> catches the error (nothing escapes
  it), issues exactly one notification, the error notification \<open>Login failed\<close> or
  \<open>Registration failed\<close>, and leaves the loading flag false.
\<close>

theorem failed_submission_caught:
  "snd (login_onSubmit_with br (Rejects error) data st) = None \<and>
   filter is_toast (trace (fst (login_onSubmit_with br (Rejects error) data st))) =
     filter is_toast (trace st) @
     [ToastError ''Login failed'' ''Invalid email or password. Please try again.''] \<and>
   \<not> isLoading (fst (login_onSubmit_with br (Rejects error) data st)) \<and>
   snd (signup_onSubmit_with br' (Rejects error) data' st') = None \<and>
   filter is_toast (trace (fst (signup_onSubmit_with br' (Rejects error) data' st'))) =
     filter is_toast (trace st') @
     [ToastError ''Registration failed'' ''Something went wrong. Please try again.''] \<and>
   \<not> isLoading (fst (signup_onSubmit_with br' (Rejects error) data' st'))"
  by (simp add: login_onSubmit_with_Rejects signup_onSubmit_with_Rejects event_defs)

theorem failed_submission_caught_witness:
  "login_onSubmit_with browser_ok (Rejects ''network'')
      \<lparr>email = js ''user@example.com'', password = js ''Passw0rd1'',
       rememberMe = Some True\<rparr> login_mounted =
     (login_mounted\<lparr>trace :=
        [SetIsLoading True, Await 1500, ConsoleError ''Login error: network'',
         ToastError ''Login failed'' ''Invalid email or password. Please try again.'',
         SetIsLoading False]\<rparr>, None) \<and>
   filter is_toast (trace (fst (signup_onSubmit_with browser_ok (Rejects ''network'')
      \<lparr>email = js ''ada@example.com'', password = js ''Abcdef12'',
       fullName = js ''Ada Lovelace'', confirmPassword = js ''Abcdef12''\<rparr> signup_mounted))) =
     [ToastError ''Registration failed'' ''Something went wrong. Please try again.'']"
proof -
  have "login_onSubmit_with browser_ok (Rejects ''network'')
      \<lparr>email = js ''user@example.com'', password = js ''Passw0rd1'',
       rememberMe = Some True\<rparr> login_mounted =
     (login_mounted\<lparr>trace :=
        [SetIsLoading True, Await 1500, ConsoleError ''Login error: network'',
         ToastError ''Login failed'' ''Invalid email or password. Please try again.'',
         SetIsLoading False]\<rparr>, None)"
    by (simp add: login_onSubmit_with_Rejects login_mounted_def)
  with failed_submission_caught [of browser_ok "''network''"
      "\<lparr>email = js ''user@example.com'', password = js ''Passw0rd1'',
        rememberMe = Some True\<rparr>" login_mounted browser_ok
      "\<lparr>email = js ''ada@example.com'', password = js ''Abcdef12'',
        fullName = js ''Ada Lovelace'', confirmPassword = js ''Abcdef12''\<rparr>" signup_mounted]
  show ?thesis
    by (simp add: signup_mounted_def)
qed

lemma signup_submit_eq:
  "signup_submit zod_email br = signup_submit_with zod_email br Resolves"
  by (rule ext)+ (simp add: signup_submit_def signup_submit_with_def signup_onSubmit_def
        simulated_api_call_def handleSubmit_def split: sum.splits)

lemma login2_submit_eq:
  "login2_submit zod_email br = login2_submit_with zod_email br Resolves"
  by (rule ext)+ (simp add: login2_submit_def login2_submit_with_def login_onSubmit_def
        simulated_api_call_def handleSubmit_def split: sum.splits)

lemma login_try_throws_cong:
  "rememberMe d = rememberMe d' \<Longrightarrow> login_try_throws br d = login_try_throws br d'"
  by (simp add: login_try_throws_def)

lemma handleSubmit_login_catch:
  assumes "\<And>v. rememberMe (fst (schema v)) = rememberMe v"
  shows "filter is_catch_event
           (trace (fst (handleSubmit (zodResolver schema) (login_onSubmit_with br Resolves)
              data st))) =
         filter is_catch_event (trace st) @
         (if snd (schema data) = []
          then (case login_try_throws br data of
                  None \<Rightarrow> []
                | Some error \<Rightarrow>
                    [ConsoleError (''Login error: '' @ error),
                     ToastError ''Login failed''
                       ''Invalid email or password. Please try again.''])
          else [])"
proof (cases "snd (schema data) = []")
  case True
  have "login_try_throws br (fst (schema data)) = login_try_throws br data"
    by (rule login_try_throws_cong) (rule assms)
  with True show ?thesis
    by (simp add: handleSubmit_Inr login_onSubmit_with_catch_events)
next
  case False
  then show ?thesis
    by (simp add: handleSubmit_Inl)
qed

lemma signup_submit_catch:
  "filter is_catch_event (trace (fst (signup_submit zod_email br data st))) =
     filter is_catch_event (trace st) @
     (if snd (signupSchema zod_email data) = []
      then (case signup_try_throws br of
              None \<Rightarrow> []
            | Some error \<Rightarrow>
                [ConsoleError (''Signup error: '' @ error),
                 ToastError ''Registration failed''
                   ''Something went wrong. Please try again.''])
      else [])"
proof (cases "snd (signupSchema zod_email data) = []")
  case True
  then show ?thesis
    by (simp add: signup_submit_eq signup_submit_with_def handleSubmit_Inr
        signup_onSubmit_with_catch_events)
next
  case False
  then show ?thesis
    by (simp add: signup_submit_eq signup_submit_with_def handleSubmit_Inl)
qed

lemma login_submit_catch:
  "filter is_catch_event (trace (fst (login_submit br data st))) =
     filter is_catch_event (trace st) @
     (if snd (loginSchema data) = []
      then (case login_try_throws br data of
              None \<Rightarrow> []
            | Some error \<Rightarrow>
                [ConsoleError (''Login error: '' @ error),
                 ToastError ''Login failed''
                   ''Invalid email or password. Please try again.''])
      else [])"
  unfolding login_submit_eq login_submit_with_def
  by (rule handleSubmit_login_catch) (rule loginSchema_rememberMe)

lemma login2_submit_catch:
  "filter is_catch_event (trace (fst (login2_submit zod_email br data st))) =
     filter is_catch_event (trace st) @
     (if snd (loginSchema2 zod_email data) = []
      then (case login_try_throws br data of
              None \<Rightarrow> []
            | Some error \<Rightarrow>
                [ConsoleError (''Login error: '' @ error),
                 ToastError ''Login failed''
                   ''Invalid email or password. Please try again.''])
      else [])"
  unfolding login2_submit_eq login2_submit_with_def
  by (rule handleSubmit_login_catch) (rule loginSchema2_rememberMe)

lemma try_throws_browser_ok:
  "login_try_throws browser_ok data = None" "signup_try_throws browser_ok = None"
  by (simp_all add: login_try_throws_def signup_try_throws_def browser_ok_def)

text \<open>
  C8 (amended). With the simulated API call the \<open>await\<close> never throws, so the \<open>try\<close>
  block of either page ends with an error exactly when one of its later calls throws:
  \<open>localStorage.setItem\<close> (called by the login page when \<open>rememberMe\<close> is true),
  \<open>toast.success\<close> or \<open>setTimeout\<close>. A submission of schema-valid input runs the
  \<open>catch\<close> branch (console error and error notification) exactly in that case, and a
  submission of invalid input never does. In a browser whose calls return normally the
  \<open>catch\<close> branch is never run, in either page.
\<close>

theorem catch_reached_iff_call_throws:
  "snd (login_try br (simulated_api_call 1500) data st) = login_try_throws br data \<and>
   snd (signup_try br (simulated_api_call 2000) data' st') = signup_try_throws br \<and>
   filter is_catch_event (trace (fst (login_submit br data st))) =
     filter is_catch_event (trace st) @
     (if snd (loginSchema data) = []
      then (case login_try_throws br data of
              None \<Rightarrow> []
            | Some error \<Rightarrow>
                [ConsoleError (''Login error: '' @ error),
                 ToastError ''Login failed''
                   ''Invalid email or password. Please try again.''])
      else []) \<and>
   filter is_catch_event (trace (fst (login2_submit zod_email br data st))) =
     filter is_catch_event (trace st) @
     (if snd (loginSchema2 zod_email data) = []
      then (case login_try_throws br data of
              None \<Rightarrow> []
            | Some error \<Rightarrow>
                [ConsoleError (''Login error: '' @ error),
                 ToastError ''Login failed''
                   ''Invalid email or password. Please try again.''])
      else []) \<and>
   filter is_catch_event (trace (fst (signup_submit zod_email br data' st'))) =
     filter is_catch_event (trace st') @
     (if snd (signupSchema zod_email data') = []
      then (case signup_try_throws br of
              None \<Rightarrow> []
            | Some error \<Rightarrow>
                [ConsoleError (''Signup error: '' @ error),
                 ToastError ''Registration failed''
                   ''Something went wrong. Please try again.''])
      else []) \<and>
   filter is_catch_event (trace (fst (login_submit browser_ok data st))) =
     filter is_catch_event (trace st) \<and>
   filter is_catch_event (trace (fst (login2_submit zod_email browser_ok data st))) =
     filter is_catch_event (trace st) \<and>
   filter is_catch_event (trace (fst (signup_submit zod_email browser_ok data' st'))) =
     filter is_catch_event (trace st')"
proof -
  have t1: "snd (login_try br (simulated_api_call 1500) data st) = login_try_throws br data"
    by (simp add: simulated_api_call_def login_try_thrown)
  have t2: "snd (signup_try br (simulated_api_call 2000) data' st') = signup_try_throws br"
    by (simp add: simulated_api_call_def signup_try_thrown)
  have o1: "filter is_catch_event (trace (fst (login_submit browser_ok data st))) =
      filter is_catch_event (trace st)"
    by (simp add: login_submit_catch try_throws_browser_ok)
  have o2: "filter is_catch_event (trace (fst (login2_submit zod_email browser_ok data st))) =
      filter is_catch_event (trace st)"
    by (simp add: login2_submit_catch try_throws_browser_ok)
  have o3: "filter is_catch_event (trace (fst (signup_submit zod_email browser_ok data' st'))) =
      filter is_catch_event (trace st')"
    by (simp add: signup_submit_catch try_throws_browser_ok)
  show ?thesis
    by (intro conjI t1 t2 login_submit_catch login2_submit_catch signup_submit_catch o1 o2 o3)
qed

theorem catch_reached_iff_call_throws_witness:
  "snd (loginSchema
      \<lparr>email = js ''user@example.com'', password = js ''Passw0rd1'',
       rememberMe = Some False\<rparr>) = [] \<and>
   login_try_throws
      \<lparr>setItem_throws = Some ''QuotaExceededError'', toast_success_throws = None,
       setTimeout_throws = None\<rparr>
      \<lparr>email = js ''user@example.com'', password = js ''Passw0rd1'',
       rememberMe = Some False\<rparr> = None \<and>
   filter is_catch_event (trace (fst (login_submit
      \<lparr>setItem_throws = Some ''QuotaExceededError'', toast_success_throws = None,
       setTimeout_throws = None\<rparr>
      \<lparr>email = js ''user@example.com'', password = js ''Passw0rd1'',
       rememberMe = Some False\<rparr> login_mounted))) = [] \<and>
   filter is_catch_event (trace (fst (login_submit browser_ok
      \<lparr>email = js ''user@example.com'', password = js ''Passw0rd1'',
       rememberMe = Some False\<rparr> login_mounted))) = []"
proof -
  let ?d = "\<lparr>email = js ''user@example.com'', password = js ''Passw0rd1'',
       rememberMe = Some False\<rparr>"
  let ?b = "\<lparr>setItem_throws = Some ''QuotaExceededError'', toast_success_throws = None,
       setTimeout_throws = None\<rparr>"
  have v: "snd (loginSchema ?d) = []"
    by (simp add: loginSchema_def schema_defs regex_defs)
  have n: "login_try_throws ?b ?d = None"
    by (simp add: login_try_throws_def)
  from catch_reached_iff_call_throws
    [of ?b ?d login_mounted
      "\<lparr>email = js ''ada@example.com'', password = js ''Abcdef12'',
        fullName = js ''Ada Lovelace'', confirmPassword = js ''Abcdef12''\<rparr>" signup_mounted
      "regex_test_anchored EMAIL_REGEX"] v n
  show ?thesis
    by (simp add: login_mounted_def)
qed

text \<open>
  When local storage is full or blocked the \<open>catch\<close> branch is reached with the
  simulated API call: the input is schema-valid, the \<open>await\<close> resolves,
  \<open>localStorage.setItem\<close> throws inside the \<open>try\<close> block and the \<open>catch\<close> branch
  reports a failed login.
\<close>

theorem setItem_throws_reaches_catch_counterexample:
  "snd (loginSchema
      \<lparr>email = js ''user@example.com'', password = js ''Passw0rd1'',
       rememberMe = Some True\<rparr>) = [] \<and>
   simulated_api_call 1500 = Resolves \<and>
   login_submit
      \<lparr>setItem_throws = Some ''QuotaExceededError'', toast_success_throws = None,
       setTimeout_throws = None\<rparr>
      \<lparr>email = js ''user@example.com'', password = js ''Passw0rd1'',
       rememberMe = Some True\<rparr> login_mounted =
     (\<lparr>isLoading = False, formErrors = [], pending = [],
       trace = [SetIsLoading True, Await 1500,
                ConsoleError ''Login error: QuotaExceededError'',
                ToastError ''Login failed'' ''Invalid email or password. Please try again.'',
                SetIsLoading False]\<rparr>, None)"
proof -
  let ?d = "\<lparr>email = js ''user@example.com'', password = js ''Passw0rd1'',
       rememberMe = Some True\<rparr>"
  have v: "snd (loginSchema ?d) = []"
    by (simp add: loginSchema_def schema_defs regex_defs)
  have r: "rememberMe (fst (loginSchema ?d)) = Some True"
    by (simp add: loginSchema_rememberMe)
  show ?thesis
    using v r
    by (simp add: login_submit_def handleSubmit_Inr login_mounted_def workflow_defs)
qed

lemma isLoading_emit: "isLoading (emit e st) = isLoading st"
  by (simp add: emit_def)

lemma isLoading_foldl_emit:
  "isLoading (foldl (\<lambda>s (ms, route). emit (Navigate route) s) s0 ts) = isLoading s0"
proof (induction ts arbitrary: s0)
  case Nil
  show ?case by simp
next
  case (Cons t ts)
  obtain ms route where t: "t = (ms, route)" by (cases t)
  show ?case
    by (simp add: t Cons.IH isLoading_emit)
qed

lemma isLoading_fire_timers: "isLoading (fire_timers st) = isLoading st"
  by (simp add: fire_timers_def isLoading_foldl_emit)

lemma signup_onSubmit_isLoading:
  "isLoading (fst (signup_onSubmit br data st)) = (signup_try_throws br = None)"
  by (simp add: signup_onSubmit_def simulated_api_call_def signup_onSubmit_with_unfold
      signup_try_thrown signup_catch_unfold split: option.splits)
     (simp add: signup_try_Resolves signup_try_throws_def Let_def)

text \<open>
  C10. A successful signup sets \<open>isSuccess\<close> and leaves \<open>isLoading\<close> true, also after
  the navigation timer has fired; only the failure path resets it: \<open>isLoading\<close> stays
  true exactly when the \<open>try\<close> block ends without an error. The login handler clears
  \<open>isLoading\<close> on success and on failure.
\<close>

theorem signup_success_keeps_loading:
  "isSuccess (fst (signup_onSubmit browser_ok data st)) \<and>
   isLoading (fst (signup_onSubmit browser_ok data st)) \<and>
   isLoading (fire_timers (fst (signup_onSubmit browser_ok data st))) \<and>
   isLoading (fst (signup_onSubmit br data st)) = (signup_try_throws br = None) \<and>
   \<not> isLoading (fst (signup_onSubmit_with br (Rejects error) data st)) \<and>
   \<not> isLoading (fst (login_onSubmit br' data' st')) \<and>
   \<not> isLoading (fst (login_onSubmit_with br' (Rejects error) data' st'))"
  by (simp add: isLoading_fire_timers signup_onSubmit_isLoading login_onSubmit_with_isLoading
      login_onSubmit_def signup_onSubmit_with_Rejects try_throws_browser_ok)
     (simp add: signup_onSubmit_def simulated_api_call_def signup_onSubmit_with_Resolves)

theorem signup_success_keeps_loading_witness:
  "fire_timers (fst (signup_onSubmit browser_ok
      \<lparr>email = js ''ada@example.com'', password = js ''Abcdef12'',
       fullName = js ''Ada Lovelace'', confirmPassword = js ''Abcdef12''\<rparr> signup_mounted)) =
     \<lparr>isLoading = True, formErrors = [], pending = [],
      trace = [SetIsLoading True, Await 2000, SetIsSuccess True,
               ToastSuccess ''Account created successfully!''
                 ''Welcome aboard! Redirecting to login...'',
               SetTimeout 2500 ''/login'', Navigate ''/login''],
      isSuccess = True\<rparr> \<and>
   isLoading (fst (signup_onSubmit browser_ok
      \<lparr>email = js ''ada@example.com'', password = js ''Abcdef12'',
       fullName = js ''Ada Lovelace'', confirmPassword = js ''Abcdef12''\<rparr> signup_mounted))"
proof -
  have "fire_timers (fst (signup_onSubmit browser_ok
      \<lparr>email = js ''ada@example.com'', password = js ''Abcdef12'',
       fullName = js ''Ada Lovelace'', confirmPassword = js ''Abcdef12''\<rparr> signup_mounted)) =
     \<lparr>isLoading = True, formErrors = [], pending = [],
      trace = [SetIsLoading True, Await 2000, SetIsSuccess True,
               ToastSuccess ''Account created successfully!''
                 ''Welcome aboard! Redirecting to login...'',
               SetTimeout 2500 ''/login'', Navigate ''/login''],
      isSuccess = True\<rparr>"
    by (simp add: signup_onSubmit_def simulated_api_call_def signup_onSubmit_with_Resolves
        signup_mounted_def fire_timers_def emit_def)
  with signup_success_keeps_loading
    [of "\<lparr>email = js ''ada@example.com'', password = js ''Abcdef12'',
        fullName = js ''Ada Lovelace'', confirmPassword = js ''Abcdef12''\<rparr>" signup_mounted
      browser_ok "''network''" browser_ok
      "\<lparr>email = js ''user@example.com'', password = js ''Passw0rd1'',
        rememberMe = Some True\<rparr>" login_mounted]
  show ?thesis
    by simp
qed

end
